theory Spec2Isabelle
  imports Main "HOL-Library.Word"
begin

section \<open>The websocket synchronisation hook of the transcribee editor\<close>

text \<open>
  This theory embeds \<^verbatim>\<open>frontend/src/editor/automerge_websocket_editor.ts\<close>: the inbound
  frame handler \<^verbatim>\<open>onMessage\<close>, the outbound handler \<^verbatim>\<open>editor.onDocChange\<close> and the
  cleanup function returned by the effect of \<^verbatim>\<open>useAutomergeWebsocketEditor\<close>.
\<close>

subsection \<open>Wire data\<close>

text \<open>A message is a \<^verbatim>\<open>Uint8Array\<close>: a list of bytes.\<close>

type_synonym byte = "8 word"
type_synonym bytes = "byte list"

text \<open>The enum \<^verbatim>\<open>MessageSyncType\<close> and the numbers it assigns.\<close>

datatype MessageSyncType = Change | ChangeBacklogComplete | FullDoc

fun tag_value :: "MessageSyncType \<Rightarrow> byte" where
  "tag_value Change = 1"
| "tag_value ChangeBacklogComplete = 2"
| "tag_value FullDoc = 3"

text \<open>
  \<^verbatim>\<open>msg_data[0]\<close>: the first byte, or \<^verbatim>\<open>undefined\<close> (here \<open>None\<close>) when the array is
  empty; an index out of range of a typed array does not throw.
\<close>

definition msg_type :: "bytes \<Rightarrow> byte option" where
  "msg_type msg_data = (case msg_data of [] \<Rightarrow> None | b # _ \<Rightarrow> Some b)"

text \<open>\<^verbatim>\<open>msg_data.slice(1)\<close>: everything after the first byte, empty for an empty array.\<close>

definition msg :: "bytes \<Rightarrow> bytes" where
  "msg msg_data = drop 1 msg_data"

text \<open>The two reads at the head of \<^verbatim>\<open>onMessage\<close>, taken together.\<close>

definition decode :: "bytes \<Rightarrow> byte option \<times> bytes" where
  "decode msg_data = (msg_type msg_data, msg msg_data)"

text \<open>
  Modelled from the spec: the frame encoder. The source file only parses frames; frames
  are built by the server. Section 4.1 of the specification: a frame whose first byte is
  the numeric tag and whose remaining bytes are the payload, unmodified.
\<close>

definition encode :: "byte \<Rightarrow> bytes \<Rightarrow> bytes" where
  "encode tag payload = tag # payload"

subsection \<open>The collaborators\<close>

text \<open>
  The Automerge functions the file calls are parameters of the model. A call that can
  throw returns \<open>None\<close> when it does. \<open>decodeChange_actor\<close> stands for
  \<^verbatim>\<open>Automerge.decodeChange(msg).actor\<close>, and \<open>applyChanges\<close> for the first component
  of the tuple that \<^verbatim>\<open>Automerge.applyChanges\<close> returns.
\<close>

record ('doc, 'actor) Automerge =
  init :: "'doc"
  decodeChange_actor :: "bytes \<Rightarrow> 'actor option"
  getActorId :: "'doc \<Rightarrow> 'actor"
  applyChanges :: "'doc \<Rightarrow> bytes list \<Rightarrow> 'doc option"
  load :: "bytes \<Rightarrow> 'doc option"
  getLastLocalChange :: "'doc \<Rightarrow> bytes option"

text \<open>The exceptions that can leave \<^verbatim>\<open>onMessage\<close>, named after the call that threw.\<close>

datatype error = DecodeChangeError | ApplyChangesError | LoadError

text \<open>
  Calls made on the collaborators, in the order they happen. A websocket is named by a
  number.
\<close>

datatype 'doc effect =
    ConsoleLog string
  | OnInitialSyncComplete
  | SetDoc 'doc
  | WsSend nat bytes
  | WsClose nat

text \<open>
  What the hook holds: the document of the editor (\<^verbatim>\<open>editor.doc\<close>), the reference
  \<^verbatim>\<open>wsRef.current\<close> (\<open>None\<close> for \<^verbatim>\<open>null\<close>) and the calls made so far.
\<close>

record 'doc session =
  editor_doc :: "'doc"
  wsRef :: "nat option"
  effects :: "'doc effect list"

definition emit :: "'doc effect \<Rightarrow> 'doc session \<Rightarrow> 'doc session" where
  "emit e s = s\<lparr>effects := effects s @ [e]\<rparr>"

text \<open>
  Modelled from the spec: \<^verbatim>\<open>editor.setDoc\<close> belongs to the package
  \<^verbatim>\<open>slate-automerge-doc\<close>. Section 6 of the specification: the editor surface accepts a
  replacement Document. The call is recorded and the held document replaced; the change
  notification the editor surface may raise afterwards is an event of its own
  (\<open>DocChange\<close> below).
\<close>

definition setDoc :: "'doc \<Rightarrow> 'doc session \<Rightarrow> 'doc session" where
  "setDoc newDoc s = (emit (SetDoc newDoc) s)\<lparr>editor_doc := newDoc\<rparr>"

subsection \<open>The inbound handler\<close>

text \<open>
  \<^verbatim>\<open>onMessage\<close>, after the bytes of the event have been read. The result is the exception
  that rejected the handler, if any, and the session it leaves behind.
\<close>

definition onMessage ::
  "('doc, 'actor) Automerge \<Rightarrow> 'doc session \<Rightarrow> bytes \<Rightarrow> error option \<times> 'doc session" where
  "onMessage am s msg_data =
     (let ty = msg_type msg_data; m = msg msg_data in
      if ty = Some (tag_value Change) then
        (case decodeChange_actor am m of
           None \<Rightarrow> (Some DecodeChangeError, s)
         | Some actor \<Rightarrow>
             if actor = getActorId am (editor_doc s) then (None, s)
             else
               (case applyChanges am (editor_doc s) [m] of
                  None \<Rightarrow> (Some ApplyChangesError, s)
                | Some newDoc \<Rightarrow> (None, setDoc newDoc s)))
      else if ty = Some (tag_value ChangeBacklogComplete) then
        (None, emit OnInitialSyncComplete (emit (ConsoleLog ''All changes synced'') s))
      else if ty = Some (tag_value FullDoc) then
        (let s1 = emit (ConsoleLog ''Received new document'') s in
         case load am m of
           None \<Rightarrow> (Some LoadError, s1)
         | Some newDoc \<Rightarrow> (None, setDoc newDoc s1))
      else (None, s))"

subsection \<open>The outbound handler\<close>

text \<open>
  \<^verbatim>\<open>editor.onDocChange\<close>. A \<^verbatim>\<open>Uint8Array\<close> is truthy whatever its length, so the test on
  \<^verbatim>\<open>lastChange\<close> only separates a change from \<^verbatim>\<open>undefined\<close>.
\<close>

definition onDocChange ::
  "('doc, 'actor) Automerge \<Rightarrow> 'doc session \<Rightarrow> 'doc \<Rightarrow> 'doc session" where
  "onDocChange am s newDoc =
     (case getLastLocalChange am newDoc of
        None \<Rightarrow> s
      | Some lastChange \<Rightarrow>
          (case wsRef s of
             None \<Rightarrow> s
           | Some ws \<Rightarrow> emit (WsSend ws lastChange) s))"

subsection \<open>Mounting and cleanup\<close>

text \<open>
  The effect stores the socket it opened in \<^verbatim>\<open>wsRef.current\<close>.
\<close>

definition mount :: "nat \<Rightarrow> 'doc session \<Rightarrow> 'doc session" where
  "mount ws s = s\<lparr>wsRef := Some ws\<rparr>"

text \<open>
  The cleanup function of the effect is a block of two statements:
  \<^verbatim>\<open>wsRef.current = null\<close> (\<open>ClearWsRef\<close>, doing \<open>cleanup_clear\<close>) and
  \<^verbatim>\<open>ws.close()\<close> (\<open>CloseWs\<close>, doing \<open>cleanup_close\<close>). \<open>cleanup_body\<close> lists them in
  the order of the source, and \<open>cleanup\<close> runs the block from its first statement to
  its last.
\<close>

datatype cleanup_stmt = ClearWsRef | CloseWs nat

definition cleanup_clear :: "'doc session \<Rightarrow> 'doc session" where
  "cleanup_clear s = s\<lparr>wsRef := None\<rparr>"

definition cleanup_close :: "nat \<Rightarrow> 'doc session \<Rightarrow> 'doc session" where
  "cleanup_close ws s = emit (WsClose ws) s"

fun exec_stmt :: "cleanup_stmt \<Rightarrow> 'doc session \<Rightarrow> 'doc session" where
  "exec_stmt ClearWsRef s = cleanup_clear s"
| "exec_stmt (CloseWs ws) s = cleanup_close ws s"

definition cleanup_body :: "nat \<Rightarrow> cleanup_stmt list" where
  "cleanup_body ws = [ClearWsRef, CloseWs ws]"

definition cleanup :: "nat \<Rightarrow> 'doc session \<Rightarrow> 'doc session" where
  "cleanup ws s = foldl (\<lambda>s' c. exec_stmt c s') s (cleanup_body ws)"

text \<open>The sessions a block passes through: the one after each of its statements, in order.\<close>

fun states_of :: "cleanup_stmt list \<Rightarrow> 'doc session \<Rightarrow> 'doc session list" where
  "states_of [] s = []"
| "states_of (c # cs) s = exec_stmt c s # states_of cs (exec_stmt c s)"

text \<open>
  A block run with send attempts in between: the \<open>i\<close>-th list of documents holds the
  change notifications handled right after the \<open>i\<close>-th statement (none when the lists
  run out). No notification is placed before the first statement, so every one of them
  happens after the block has begun.
\<close>

fun teardown ::
  "('doc, 'actor) Automerge \<Rightarrow> cleanup_stmt list \<Rightarrow> 'doc list list \<Rightarrow> 'doc session
     \<Rightarrow> 'doc session" where
  "teardown am [] dss s = s"
| "teardown am (c # cs) [] s = teardown am cs [] (exec_stmt c s)"
| "teardown am (c # cs) (ds # dss) s =
     teardown am cs dss (foldl (onDocChange am) (exec_stmt c s) ds)"

subsection \<open>Sessions\<close>

text \<open>
  A session is the sequence of callbacks the event loop delivers, one at a time: a
  message from the socket, a change notification from the editor surface, or the cleanup
  of the effect. A handler that throws leaves the session as it was at the throw, and the
  next callback runs from there.
\<close>

datatype 'doc event = Message bytes | DocChange 'doc | Cleanup nat

fun step :: "('doc, 'actor) Automerge \<Rightarrow> 'doc session \<Rightarrow> 'doc event \<Rightarrow> 'doc session" where
  "step am s (Message msg_data) = snd (onMessage am s msg_data)"
| "step am s (DocChange newDoc) = onDocChange am s newDoc"
| "step am s (Cleanup ws) = cleanup ws s"

definition run :: "('doc, 'actor) Automerge \<Rightarrow> 'doc session \<Rightarrow> 'doc event list \<Rightarrow> 'doc session" where
  "run am s evs = foldl (step am) s evs"

text \<open>The number of times \<^verbatim>\<open>onInitialSyncComplete\<close> has been called.\<close>

definition sync_complete_calls :: "'doc session \<Rightarrow> nat" where
  "sync_complete_calls s = length (filter (\<lambda>e. e = OnInitialSyncComplete) (effects s))"

text \<open>The messages whose first byte is the tag of \<open>ChangeBacklogComplete\<close>.\<close>

fun is_backlog_complete :: "'doc event \<Rightarrow> bool" where
  "is_backlog_complete (Message msg_data) = (msg_type msg_data = Some (tag_value ChangeBacklogComplete))"
| "is_backlog_complete (DocChange _) = False"
| "is_backlog_complete (Cleanup _) = False"

text \<open>The bytes handed to \<^verbatim>\<open>send\<close>, in order.\<close>

fun sent :: "'doc effect list \<Rightarrow> bytes list" where
  "sent [] = []"
| "sent (WsSend _ b # es) = b # sent es"
| "sent (_ # es) = sent es"

subsection \<open>A small engine for concrete runs\<close>

text \<open>
  A document is its actor and the changes applied to it; a change is its author's byte
  followed by its content; a snapshot is the actor's byte followed by one change. Empty
  changes and empty snapshots are rejected.
\<close>

type_synonym toy_doc = "byte \<times> bytes list"

fun toy_author :: "bytes \<Rightarrow> byte option" where
  "toy_author [] = None"
| "toy_author (a # _) = Some a"

fun toy_apply :: "toy_doc \<Rightarrow> bytes list \<Rightarrow> toy_doc option" where
  "toy_apply d [] = Some d"
| "toy_apply d ([] # cs) = None"
| "toy_apply (a, applied) (c # cs) = toy_apply (a, applied @ [c]) cs"

fun toy_load :: "bytes \<Rightarrow> toy_doc option" where
  "toy_load [] = None"
| "toy_load (a # c) = Some (a, [c])"

fun toy_last_local :: "byte \<Rightarrow> bytes list \<Rightarrow> bytes option" where
  "toy_last_local a [] = None"
| "toy_last_local a (c # cs) =
     (case toy_last_local a cs of
        Some l \<Rightarrow> Some l
      | None \<Rightarrow> if toy_author c = Some a then Some c else None)"

definition toy :: "(toy_doc, byte) Automerge" where
  "toy = \<lparr> init = (1, []),
           decodeChange_actor = toy_author,
           getActorId = fst,
           applyChanges = toy_apply,
           load = toy_load,
           getLastLocalChange = (\<lambda>d. toy_last_local (fst d) (snd d)) \<rparr>"

definition toy_session :: "toy_doc session" where
  "toy_session = \<lparr> editor_doc = init toy, wsRef = Some 0, effects = [] \<rparr>"

section \<open>Auxiliary facts\<close>

lemma sent_append: "sent (es @ es') = sent es @ sent es'"
  by (induction es rule: sent.induct) simp_all

lemma calls_emit:
  "sync_complete_calls (emit e s) =
     sync_complete_calls s + (if e = OnInitialSyncComplete then 1 else 0)"
  by (simp add: sync_complete_calls_def emit_def)

lemma calls_setDoc: "sync_complete_calls (setDoc d s) = sync_complete_calls s"
  by (simp add: sync_complete_calls_def setDoc_def emit_def)

lemma calls_onMessage:
  "sync_complete_calls (snd (onMessage am s msg_data)) =
     sync_complete_calls s
       + (if msg_type msg_data = Some (tag_value ChangeBacklogComplete) then 1 else 0)"
  by (simp add: onMessage_def Let_def calls_emit calls_setDoc split: option.splits)

lemma calls_onDocChange: "sync_complete_calls (onDocChange am s d) = sync_complete_calls s"
  by (simp add: onDocChange_def calls_emit split: option.splits)

lemma calls_cleanup: "sync_complete_calls (cleanup ws s) = sync_complete_calls s"
  by (simp add: cleanup_def cleanup_body_def cleanup_close_def cleanup_clear_def calls_emit)
     (simp add: sync_complete_calls_def)

lemma calls_step:
  "sync_complete_calls (step am s ev) =
     sync_complete_calls s + (if is_backlog_complete ev then 1 else 0)"
  by (cases ev) (simp_all add: calls_onMessage calls_onDocChange calls_cleanup)

lemma onDocChange_no_ref: "wsRef s = None \<Longrightarrow> onDocChange am s d = s"
  by (simp add: onDocChange_def split: option.splits)

lemma notifications_no_ref: "wsRef s = None \<Longrightarrow> foldl (onDocChange am) s ds = s"
  by (induction ds) (simp_all add: onDocChange_no_ref)

lemma teardown_no_ref:
  "wsRef s = None \<Longrightarrow> teardown am cs dss s = foldl (\<lambda>s' c. exec_stmt c s') s cs"
proof (induction am cs dss s rule: teardown.induct)
  case (1 am dss s)
  show ?case by simp
next
  case (2 am c cs s)
  have "wsRef (exec_stmt c s) = None"
    using "2.prems" by (cases c) (simp_all add: cleanup_clear_def cleanup_close_def emit_def)
  then show ?case using "2.IH" by simp
next
  case (3 am c cs ds dss s)
  have r: "wsRef (exec_stmt c s) = None"
    using "3.prems" by (cases c) (simp_all add: cleanup_clear_def cleanup_close_def emit_def)
  have "foldl (onDocChange am) (exec_stmt c s) ds = exec_stmt c s"
    using r by (rule notifications_no_ref)
  then show ?case using r "3.IH" by simp
qed

text \<open>
  The order of the two statements matters: were the socket closed first, a notification
  handled between the two statements would still find the reference set and send on the
  closed socket.
\<close>

lemma close_first_sends:
  "effects (teardown toy [CloseWs 0, ClearWsRef] [[(1, [[1, 7, 8]])]] toy_session)
     = [WsClose 0, WsSend 0 [1, 7, 8]]"
  by (simp add: cleanup_clear_def cleanup_close_def emit_def onDocChange_def toy_def
      toy_session_def)

section \<open>Properties\<close>

text \<open>
  C1. A frame with tag 1 whose payload decodes to an author equal to the actor of the
  held document is dropped before merging: the handler returns without an exception and
  the session is exactly what it was, so the document is unchanged and no call (no
  \<^verbatim>\<open>setDoc\<close>, no callback, no log, no send) has been made.
\<close>

theorem onMessage_own_change:
  assumes "decodeChange_actor am payload = Some actor"
      and "actor = getActorId am (editor_doc s)"
  shows "onMessage am s (tag_value Change # payload) = (None, s)"
  using assms by (simp add: onMessage_def msg_type_def msg_def)

theorem onMessage_own_change_witness:
  "decodeChange_actor toy [1, 65, 66] = Some 1 \<and> 1 = getActorId toy (editor_doc toy_session)
   \<and> onMessage toy toy_session (tag_value Change # [1, 65, 66]) = (None, toy_session)"
proof -
  have h1: "decodeChange_actor toy [1, 65, 66] = Some 1"
    by (simp add: toy_def)
  have h2: "1 = getActorId toy (editor_doc toy_session)"
    by (simp add: toy_def toy_session_def)
  show ?thesis
    using h1 h2 onMessage_own_change [OF h1 h2] by simp
qed

text \<open>
  C2, as the code has it. \<^verbatim>\<open>onInitialSyncComplete\<close> is called once for each message
  whose tag is 2, whatever its payload, and by nothing else: over any sequence of
  messages, change notifications and cleanups, the number of calls grows by the number of
  tag-2 messages in the sequence. The handler keeps no record of having called it before.
\<close>

theorem sync_complete_once_per_backlog_frame:
  "sync_complete_calls (run am s evs) =
     sync_complete_calls s + length (filter is_backlog_complete evs)"
  unfolding run_def
proof (induction evs arbitrary: s)
  case Nil
  show ?case by simp
next
  case (Cons ev evs)
  show ?case by (simp add: Cons.IH calls_step)
qed

text \<open>
  Two tag-2 messages in one session call \<^verbatim>\<open>onInitialSyncComplete\<close> twice, and a session
  without one never calls it.
\<close>

theorem sync_complete_twice_counterexample:
  "sync_complete_calls (run toy toy_session
      [Message [tag_value ChangeBacklogComplete], Message [tag_value ChangeBacklogComplete]]) = 2
   \<and> sync_complete_calls (run toy toy_session []) = 0"
  by (simp add: run_def onMessage_def msg_type_def msg_def emit_def sync_complete_calls_def
      toy_session_def)

text \<open>
  C3, as the code has it. When the engine yields a most recent local change and the
  socket reference is set, exactly one \<^verbatim>\<open>send\<close> is made on that socket, and its argument
  is the change itself: the bytes the engine returned, with no tag byte in front (so it is
  never the frame encoding of the change).
\<close>

theorem onDocChange_sends_raw_change:
  assumes "getLastLocalChange am newDoc = Some lastChange" and "wsRef s = Some ws"
  shows "onDocChange am s newDoc = emit (WsSend ws lastChange) s
         \<and> effects (onDocChange am s newDoc) = effects s @ [WsSend ws lastChange]
         \<and> sent (effects (onDocChange am s newDoc)) = sent (effects s) @ [lastChange]
         \<and> lastChange \<noteq> encode tag lastChange"
  using assms by (simp add: onDocChange_def emit_def sent_append encode_def)

theorem onDocChange_sends_raw_change_witness:
  "getLastLocalChange toy (5, [[5, 7, 8]]) = Some [5, 7, 8] \<and> wsRef toy_session = Some 0
   \<and> sent (effects (onDocChange toy toy_session (5, [[5, 7, 8]]))) = [[5, 7, 8]]"
proof -
  have h1: "getLastLocalChange toy (5, [[5, 7, 8]]) = Some [5, 7, 8]"
    by (simp add: toy_def)
  have h2: "wsRef toy_session = Some 0"
    by (simp add: toy_session_def)
  show ?thesis
    using h1 h2 onDocChange_sends_raw_change [OF h1 h2]
    by (simp add: toy_session_def emit_def)
qed

text \<open>
  With the local change \<open>[5, 7, 8]\<close> and a live socket, what is sent is not the frame
  with tag 1 around that change.
\<close>

theorem onDocChange_tagged_counterexample:
  "getLastLocalChange toy (5, [[5, 7, 8]]) = Some [5, 7, 8] \<and> wsRef toy_session = Some 0
   \<and> sent (effects (onDocChange toy toy_session (5, [[5, 7, 8]])))
       \<noteq> [encode (tag_value Change) [5, 7, 8]]"
  by (simp add: onDocChange_def emit_def toy_def toy_session_def encode_def)

text \<open>
  C4. A frame with tag 3 whose payload the engine loads replaces the held document by the
  loaded one, whatever the session was: the result does not depend on the document held
  before, so nothing of it (local edits included) survives. The handler logs, calls
  \<^verbatim>\<open>setDoc\<close> with the loaded document and does not throw.
\<close>

theorem onMessage_full_doc:
  assumes "load am payload = Some newDoc"
  shows "onMessage am s (tag_value FullDoc # payload) =
           (None, setDoc newDoc (emit (ConsoleLog ''Received new document'') s))
         \<and> editor_doc (snd (onMessage am s (tag_value FullDoc # payload))) = newDoc
         \<and> editor_doc (snd (onMessage am s' (tag_value FullDoc # payload))) = newDoc"
  using assms by (simp add: onMessage_def msg_type_def msg_def setDoc_def)

theorem onMessage_full_doc_witness:
  "load toy [5, 1, 66] = Some (5, [[1, 66]])
   \<and> editor_doc (snd (onMessage toy (toy_session\<lparr>editor_doc := (1, [[1, 9]])\<rparr>)
        (tag_value FullDoc # [5, 1, 66]))) = (5, [[1, 66]])"
proof -
  have h: "load toy [5, 1, 66] = Some (5, [[1, 66]])"
    by (simp add: toy_def)
  show ?thesis
    using h onMessage_full_doc [OF h, of "toy_session\<lparr>editor_doc := (1, [[1, 9]])\<rparr>"]
    by (simp add: setDoc_def)
qed

text \<open>
  C5. A frame with tag 1 whose payload decodes to an author other than the actor of the
  held document is merged: the engine's \<^verbatim>\<open>applyChanges\<close> is given the held document and
  the list holding that one change, and its result replaces the held document through
  \<^verbatim>\<open>setDoc\<close>. This holds for every session; the socket reference is untouched, the
  only call made is that \<^verbatim>\<open>setDoc\<close>, and \<^verbatim>\<open>onInitialSyncComplete\<close> is not called.
\<close>

theorem onMessage_remote_change:
  assumes "decodeChange_actor am payload = Some actor"
      and "actor \<noteq> getActorId am (editor_doc s)"
      and "applyChanges am (editor_doc s) [payload] = Some newDoc"
  shows "onMessage am s (tag_value Change # payload) = (None, setDoc newDoc s)
         \<and> editor_doc (snd (onMessage am s (tag_value Change # payload))) = newDoc
         \<and> wsRef (snd (onMessage am s (tag_value Change # payload))) = wsRef s
         \<and> effects (snd (onMessage am s (tag_value Change # payload)))
             = effects s @ [SetDoc newDoc]
         \<and> sync_complete_calls (snd (onMessage am s (tag_value Change # payload)))
             = sync_complete_calls s"
  using assms
  by (simp add: onMessage_def msg_type_def msg_def setDoc_def emit_def sync_complete_calls_def)

theorem onMessage_remote_change_witness:
  "decodeChange_actor toy [2, 65, 66] = Some 2
   \<and> 2 \<noteq> getActorId toy (editor_doc toy_session)
   \<and> applyChanges toy (editor_doc toy_session) [[2, 65, 66]] = Some (1, [[2, 65, 66]])
   \<and> onMessage toy toy_session (tag_value Change # [2, 65, 66]) =
       (None, setDoc (1, [[2, 65, 66]]) toy_session)"
proof -
  have h1: "decodeChange_actor toy [2, 65, 66] = Some 2"
    by (simp add: toy_def)
  have h2: "2 \<noteq> getActorId toy (editor_doc toy_session)"
    by (simp add: toy_def toy_session_def)
  have h3: "applyChanges toy (editor_doc toy_session) [[2, 65, 66]] = Some (1, [[2, 65, 66]])"
    by (simp add: toy_def toy_session_def)
  show ?thesis
    using h1 h2 h3 onMessage_remote_change [OF h1 h2 h3] by simp
qed

text \<open>
  C6. A frame whose tag is none of 1, 2, 3 (99, say), with any payload, matches no branch:
  the handler does not throw and the session, and with it the held document, is
  unchanged.
\<close>

theorem onMessage_unknown_tag:
  assumes "tag \<notin> {tag_value Change, tag_value ChangeBacklogComplete, tag_value FullDoc}"
  shows "onMessage am s (tag # payload) = (None, s)"
  using assms by (simp add: onMessage_def msg_type_def msg_def)

theorem onMessage_unknown_tag_witness:
  "(99 :: byte) \<notin> {tag_value Change, tag_value ChangeBacklogComplete, tag_value FullDoc}
   \<and> onMessage toy toy_session [99, 1, 2, 3] = (None, toy_session)"
proof -
  have h: "(99 :: byte) \<notin> {tag_value Change, tag_value ChangeBacklogComplete, tag_value FullDoc}"
    by simp
  show ?thesis
    using h onMessage_unknown_tag [OF h, of toy toy_session "[1, 2, 3]"] by simp
qed

text \<open>
  C7. A change notification that finds the socket reference empty, or for which the
  engine reports no most recent local change, returns normally, sends nothing and leaves
  the session exactly as it was. Nothing is kept for later: once a socket is mounted
  again, every continuation of the session is the one it would have been without the
  notification.
\<close>

theorem onDocChange_drops:
  assumes "wsRef s = None \<or> getLastLocalChange am newDoc = None"
  shows "onDocChange am s newDoc = s
         \<and> sent (effects (onDocChange am s newDoc)) = sent (effects s)
         \<and> run am (mount ws (onDocChange am s newDoc)) evs = run am (mount ws s) evs"
  using assms by (auto simp add: onDocChange_def split: option.splits)

theorem onDocChange_drops_witness:
  "(wsRef (cleanup_clear toy_session) = None \<or> getLastLocalChange toy (1, [[1, 7, 8]]) = None)
   \<and> onDocChange toy (cleanup_clear toy_session) (1, [[1, 7, 8]]) = cleanup_clear toy_session
   \<and> getLastLocalChange toy (1, [[1, 7, 8]]) = Some [1, 7, 8]"
proof -
  have h: "wsRef (cleanup_clear toy_session) = None
           \<or> getLastLocalChange toy (1, [[1, 7, 8]]) = None"
    by (simp add: cleanup_clear_def)
  have g: "getLastLocalChange toy (1, [[1, 7, 8]]) = Some [1, 7, 8]"
    by (simp add: toy_def)
  show ?thesis
    using h g onDocChange_drops [OF h] by simp
qed

text \<open>
  C8. Decoding reads byte 0 as the tag and returns the remaining bytes unmodified as the
  payload; hence decoding an encoded frame gives back the tag and the payload, for each
  of the three tags (indeed for every byte as tag) and every payload.
\<close>

theorem decode_encode:
  "decode (b # rest) = (Some b, rest)
   \<and> decode (encode tag payload) = (Some tag, payload)
   \<and> decode (encode (tag_value t) payload) = (Some (tag_value t), payload)"
  by (simp add: decode_def encode_def msg_type_def msg_def)

text \<open>
  C9. The cleanup clears the socket reference strictly before it closes the socket: the
  block passes through exactly two sessions, the first with the reference empty and
  \<^verbatim>\<open>close\<close> not yet called (the calls made are those made before), the second with the
  reference empty and \<^verbatim>\<open>close\<close> called once. Consequently every send attempt after the
  block has begun, whether between its two statements or after them and however many
  there are, finds the reference empty and drops: the teardown ends in the session of
  the plain cleanup, whose only new call is the one \<^verbatim>\<open>close\<close>, and nothing is sent.
\<close>

theorem cleanup_clears_before_close:
  "states_of (cleanup_body ws) s =
     [s\<lparr>wsRef := None\<rparr>, s\<lparr>wsRef := None, effects := effects s @ [WsClose ws]\<rparr>]
   \<and> cleanup ws s = last (states_of (cleanup_body ws) s)
   \<and> teardown am (cleanup_body ws) dss s = cleanup ws s
   \<and> effects (teardown am (cleanup_body ws) dss s) = effects s @ [WsClose ws]
   \<and> sent (effects (teardown am (cleanup_body ws) dss s)) = sent (effects s)"
proof -
  have st: "states_of (cleanup_body ws) s =
      [s\<lparr>wsRef := None\<rparr>, s\<lparr>wsRef := None, effects := effects s @ [WsClose ws]\<rparr>]"
    by (simp add: cleanup_body_def cleanup_clear_def cleanup_close_def emit_def)
  have cl: "cleanup ws s = s\<lparr>wsRef := None, effects := effects s @ [WsClose ws]\<rparr>"
    by (simp add: cleanup_def cleanup_body_def cleanup_clear_def cleanup_close_def emit_def)
  have first: "wsRef (cleanup_clear s) = None"
    by (simp add: cleanup_clear_def)
  have "teardown am (CloseWs ws # []) dss' (cleanup_clear s)
          = foldl (\<lambda>s' c. exec_stmt c s') (cleanup_clear s) [CloseWs ws]" for dss'
    using first by (rule teardown_no_ref)
  then have rest: "teardown am [CloseWs ws] dss' (cleanup_clear s)
          = cleanup_close ws (cleanup_clear s)" for dss'
    by simp
  have same: "foldl (onDocChange am) (cleanup_clear s) ds = cleanup_clear s" for ds
    using first by (rule notifications_no_ref)
  have td: "teardown am (cleanup_body ws) dss s = cleanup ws s"
  proof (cases dss)
    case Nil
    then show ?thesis
      using rest [of "[]"] by (simp add: cleanup_body_def cleanup_def)
  next
    case (Cons ds dss')
    then show ?thesis
      using rest [of dss'] same [of ds] by (simp add: cleanup_body_def cleanup_def)
  qed
  have ef: "effects (cleanup ws s) = effects s @ [WsClose ws]"
    by (simp add: cl)
  have se: "sent (effects (cleanup ws s)) = sent (effects s)"
    by (simp add: ef sent_append)
  show ?thesis
    using st cl td ef se by simp
qed

text \<open>
  C10. For a message of length zero the handler does not throw and returns the session
  as it was: the document, the socket reference and the calls made (so no call of
  \<^verbatim>\<open>onInitialSyncComplete\<close>) are unchanged.
\<close>

theorem onMessage_empty:
  "onMessage am s [] = (None, s)"
  by (simp add: onMessage_def msg_type_def)

end
